theory Spec2Isabelle
  imports Main
begin

section \<open>The views of api\_yamdb (api/views.py)\<close>

text \<open>
  The module holds the request handlers of a rating service built on Django and
  Django REST framework (DRF). Each handler is embedded as a function from the stored
  tables and the request to an outcome and the tables afterwards. An exception a
  handler raises is a value of \<open>exc\<close>; DRF's exception handler turns it into the
  status of the response.
\<close>

subsection \<open>Python strings: the operator \<open>in\<close>\<close>

text \<open>
  For two Python strings, \<open>a in b\<close> holds when \<open>a\<close> is a contiguous substring of
  \<open>b\<close>. \<open>str_in a b\<close> tries every start position of \<open>b\<close> in turn.
\<close>

definition startswith :: "string \<Rightarrow> string \<Rightarrow> bool" where
  "startswith s p = (take (length p) s = p)"

fun str_in :: "string \<Rightarrow> string \<Rightarrow> bool" where
  "str_in a [] = (a = [])"
| "str_in a (c # cs) = (startswith (c # cs) a \<or> str_in a cs)"

subsection \<open>TitleViewSet.get\_serializer\_class\<close>

datatype serializer_class = TitlesSerializer | TitleCreateSerializer

text \<open>
  \<^verbatim>\<open>
  def get_serializer_class(self):
      if not self.request.method in ('GET'):
          return TitleCreateSerializer
      return TitlesSerializer
  \<close>
  \<open>('GET')\<close> is the string \<open>'GET'\<close> in parentheses, not a tuple, so the test is
  the substring test.
\<close>

definition get_serializer_class :: "string \<Rightarrow> serializer_class" where
  "get_serializer_class request_method =
     (if \<not> str_in request_method ''GET'' then TitleCreateSerializer
      else TitlesSerializer)"

text \<open>
  The method names a DRF view dispatches (Django's \<open>View.http_method_names\<close>, in the
  upper case of \<open>request.method\<close>) and the ninth registered HTTP method, CONNECT.
\<close>

definition http_method_names :: "string list" where
  "http_method_names =
     [''GET'', ''POST'', ''PUT'', ''PATCH'', ''DELETE'', ''HEAD'', ''OPTIONS'', ''TRACE'',
      ''CONNECT'']"

subsection \<open>Stored data\<close>

text \<open>
  Modelled from the spec: reviews/models.py (the classes User, Title, Review and
  Comment) is not part of the sources at hand. The records hold the fields that the
  views name (\<open>username\<close>, \<open>email\<close>, \<open>role\<close>, \<open>is_active\<close>, \<open>score\<close>, the
  foreign keys \<open>title\<close>, \<open>review\<close> and \<open>author\<close>) and those of the spec's data
  model. A foreign key holds the primary key of the row it refers to.
\<close>

record user =
  user_id :: nat
  username :: string
  email :: string
  role :: string
  is_active :: bool

record title =
  title_id :: nat
  title_name :: string

record review =
  review_id :: nat
  review_title :: nat
  review_author :: nat
  review_text :: string
  score :: int

record comment =
  comment_id :: nat
  comment_review :: nat
  comment_author :: nat
  comment_text :: string

text \<open>A message handed to \<open>django.core.mail.send_mail\<close>.\<close>

record mail =
  subject :: string
  message :: string
  from_email :: string
  recipient_list :: "string list"

text \<open>
  The tables (in insertion order), for the tables that the views insert into the
  last primary key the database handed out, and the messages sent so far. Failures
  of the database connection and of the mail transport are outside the model: a
  query answers from the tables and \<open>send_mail\<close> delivers.
\<close>

record state =
  User_objects :: "user list"
  Title_objects :: "title list"
  Review_objects :: "review list"
  Comment_objects :: "comment list"
  Review_pk_seq :: nat
  Comment_pk_seq :: nat
  outbox :: "mail list"

subsection \<open>Python values, requests, responses, exceptions\<close>

text \<open>
  The values that occur in \<open>request.data\<close> and in the \<open>validated_data\<close> of a
  serializer: JSON scalars, model instances, and the \<open>AnonymousUser\<close> that
  \<open>request.user\<close> is when a request carries no credentials. Both dictionaries map
  field names to such values.
\<close>

datatype pyval =
    PyStr string
  | PyInt int
  | PyBool bool
  | AnonymousUser
  | UserObj user
  | TitleObj title
  | ReviewObj review

type_synonym pydict = "string \<rightharpoonup> pyval"

text \<open>
  A request as a view sees it: \<open>request.method\<close>, \<open>request.user\<close> (\<open>None\<close> for
  \<open>AnonymousUser\<close>), \<open>request.data\<close>, and the keyword arguments that the URL
  pattern captured (\<open>self.kwargs\<close>: \<open>title_id\<close>, \<open>review_id\<close>, \<open>pk\<close>).
\<close>

record request =
  req_method :: string
  req_user :: "user option"
  req_data :: pydict
  url_kwargs :: "string \<rightharpoonup> nat"

text \<open>The field errors of a serializer: for each rejected field, its messages.\<close>

type_synonym errors = "(string \<times> string list) list"

datatype exc =
    ValidationError errors
  | Http404
  | NotAuthenticated
  | PermissionDenied
  | MethodNotAllowed
  | MultipleObjectsReturned
  | IntegrityError
  | ValueError
  | AttributeError

datatype 'a body =
    NoData
  | ErrorData errors
  | Detail string
  | Metadata
  | TokenData string
  | Object 'a
  | Objects "'a list"

record 'a response =
  data :: "'a body"
  status :: nat

text \<open>
  DRF's exception handler: an \<open>APIException\<close> and Django's \<open>Http404\<close> become
  the response of their status; any other exception is not handled and the server
  answers 500.
\<close>

fun exception_handler :: "exc \<Rightarrow> 'a response" where
  "exception_handler (ValidationError errs) = \<lparr>data = ErrorData errs, status = 400\<rparr>"
| "exception_handler Http404 = \<lparr>data = Detail ''Not found.'', status = 404\<rparr>"
| "exception_handler NotAuthenticated =
     \<lparr>data = Detail ''Authentication credentials were not provided.'', status = 401\<rparr>"
| "exception_handler PermissionDenied =
     \<lparr>data = Detail ''You do not have permission to perform this action.'', status = 403\<rparr>"
| "exception_handler MethodNotAllowed = \<lparr>data = Detail ''Method not allowed.'', status = 405\<rparr>"
| "exception_handler MultipleObjectsReturned = \<lparr>data = NoData, status = 500\<rparr>"
| "exception_handler IntegrityError = \<lparr>data = NoData, status = 500\<rparr>"
| "exception_handler ValueError = \<lparr>data = NoData, status = 500\<rparr>"
| "exception_handler AttributeError = \<lparr>data = NoData, status = 500\<rparr>"

text \<open>The response the client receives for the outcome of a handler.\<close>

definition finalize :: "exc + 'a response \<Rightarrow> 'a response" where
  "finalize outcome = (case outcome of Inl e \<Rightarrow> exception_handler e | Inr r \<Rightarrow> r)"

text \<open>Whether the body of a response carries an access token.\<close>

fun has_token :: "'a body \<Rightarrow> bool" where
  "has_token (TokenData t) = True"
| "has_token b = False"

text \<open>A token request succeeded: the response is 200 and carries an access token.\<close>

definition issued :: "exc + 'a response \<Rightarrow> bool" where
  "issued outcome = (status (finalize outcome) = 200 \<and> has_token (data (finalize outcome)))"

subsection \<open>Queries\<close>

text \<open>
  \<open>get_object_or_404(Model, **lookup)\<close> calls \<open>Model.objects.get\<close>: no matching row
  raises \<open>Http404\<close>, one is returned, several raise \<open>MultipleObjectsReturned\<close>,
  which \<open>get_object_or_404\<close> does not catch.
\<close>

definition get_object_or_404 :: "('a \<Rightarrow> bool) \<Rightarrow> 'a list \<Rightarrow> exc + 'a" where
  "get_object_or_404 lookup objects =
     (case filter lookup objects of
        [] \<Rightarrow> Inl Http404
      | [obj] \<Rightarrow> Inr obj
      | obj # others \<Rightarrow> Inl MultipleObjectsReturned)"

text \<open>
  \<open>instance.save()\<close> of a row that has a primary key: the stored row of that key is
  replaced; with no such row the instance is inserted.
\<close>

definition save_row :: "('a \<Rightarrow> nat) \<Rightarrow> 'a \<Rightarrow> 'a list \<Rightarrow> 'a list" where
  "save_row pk obj objects =
     (if pk obj \<in> set (map pk objects)
      then map (\<lambda>x. if pk x = pk obj then obj else x) objects
      else objects @ [obj])"

text \<open>
  The key of a new row (an \<open>AutoField\<close>): one more than the largest key that
  the table holds or that the database handed out before, so that the key of a
  deleted row is not handed out again.
\<close>

definition next_pk :: "nat \<Rightarrow> nat list \<Rightarrow> nat" where
  "next_pk pk_seq pks = Suc (fold max pks pk_seq)"

subsection \<open>Confirmation codes and mail\<close>

text \<open>
  Django's \<open>default_token_generator\<close> and simplejwt's \<open>RefreshToken\<close> are library
  code; both read the clock. They are parameters of the views: \<open>make_token now user\<close>
  is the code made for \<open>user\<close> at time \<open>now\<close>, \<open>check_token now user code\<close> is the
  library's verdict at time \<open>now\<close>. Neither writes to the tables.
\<close>

record token_generator =
  make_token :: "nat \<Rightarrow> user \<Rightarrow> string"
  check_token :: "nat \<Rightarrow> user \<Rightarrow> string \<Rightarrow> bool"

text \<open>
  \<open>SEND_CODE_MESSAGE\<close>, a Cyrillic text of 17 letters, written as the bytes of its
  UTF-8 encoding in the source file.
\<close>

definition SEND_CODE_MESSAGE :: string where
  "SEND_CODE_MESSAGE =
     [CHR 0xD0, CHR 0x9A, CHR 0xD0, CHR 0xBE, CHR 0xD0, CHR 0xB4, CHR 0x20,
      CHR 0xD0, CHR 0xBF, CHR 0xD0, CHR 0xBE, CHR 0xD0, CHR 0xB4, CHR 0xD1, CHR 0x82,
      CHR 0xD0, CHR 0xB2, CHR 0xD0, CHR 0xB5, CHR 0xD1, CHR 0x80, CHR 0xD0, CHR 0xB6,
      CHR 0xD0, CHR 0xB4, CHR 0xD0, CHR 0xB5, CHR 0xD0, CHR 0xBD, CHR 0xD0, CHR 0xB8,
      CHR 0xD1, CHR 0x8F]"

text \<open>
  \<open>send_mail(subject, message, from_email, recipient_list)\<close> hands one message to
  the transport and returns the number of messages sent.
\<close>

definition send_mail ::
  "string \<Rightarrow> string \<Rightarrow> string \<Rightarrow> string list \<Rightarrow> state \<Rightarrow> nat \<times> state" where
  "send_mail subj msg sender recipients st =
     (1, st\<lparr>outbox := outbox st @
        [\<lparr>subject = subj, message = msg, from_email = sender,
          recipient_list = recipients\<rparr>]\<rparr>)"

text \<open>
  \<^verbatim>\<open>
  def send_confirmation_code(user):
      confirmation_code = default_token_generator.make_token(user)
      user_mail = [user.email]
      site_email = EMAIL_YAMDB
      message = SEND_CODE_MESSAGE
      return send_mail(message, confirmation_code,
                       site_email, user_mail, fail_silently=False)
  \<close>
  \<open>EMAIL_YAMDB\<close> comes from the settings module, which is not at hand: a parameter.
\<close>

definition send_confirmation_code ::
  "token_generator \<Rightarrow> string \<Rightarrow> nat \<Rightarrow> user \<Rightarrow> state \<Rightarrow> nat \<times> state" where
  "send_confirmation_code gen EMAIL_YAMDB now usr st =
     (let confirmation_code = make_token gen now usr;
          user_mail = [email usr];
          site_email = EMAIL_YAMDB;
          msg = SEND_CODE_MESSAGE
      in send_mail msg confirmation_code site_email user_mail st)"

subsection \<open>SignUpVeiwSet.post\<close>

text \<open>
  The serializers live in api/serializers.py, which is not at hand; a view only calls
  them, so each is a parameter of the view. \<open>signup_is_valid\<close> is
  \<open>is_valid(raise_exception=True)\<close>: the field errors, or the validated username and
  email; it may read the table of users. \<open>signup_save\<close> is \<open>serializer.save()\<close>: it
  returns a model instance (DRF asserts that it is not \<open>None\<close>) and the table of
  users it leaves.
\<close>

record signup_data =
  sd_username :: string
  sd_email :: string

record signup_serializer =
  signup_is_valid :: "pydict \<Rightarrow> user list \<Rightarrow> errors + signup_data"
  signup_save :: "signup_data \<Rightarrow> user list \<Rightarrow> user \<times> user list"

text \<open>
  The truth value of a model instance: a Django model defines neither \<open>__bool__\<close>
  nor \<open>__len__\<close>, so every instance is true.
\<close>

definition truth :: "user \<Rightarrow> bool" where
  "truth usr = True"

text \<open>
  \<open>user.delete()\<close> removes the row of that primary key (rows that refer to it follow
  the \<open>on_delete\<close> rules of the models).
\<close>

definition user_delete :: "user \<Rightarrow> state \<Rightarrow> state" where
  "user_delete usr st =
     st\<lparr>User_objects := filter (\<lambda>u. user_id u \<noteq> user_id usr) (User_objects st)\<rparr>"

text \<open>
  \<^verbatim>\<open>
  def post(self, request):
      serializer = SignUpSerializer(data=request.data)
      serializer.is_valid(raise_exception=True)
      user = serializer.save()
      send_confirmation_code(user)
      if not user and user.is_active:
          user.delete()
      return Response(serializer.data, status=status.HTTP_200_OK)
  \<close>
  \<open>not user and user.is_active\<close> reads \<open>(not user) and user.is_active\<close>.
\<close>

definition SignUpVeiwSet_post ::
  "signup_serializer \<Rightarrow> token_generator \<Rightarrow> string \<Rightarrow> nat \<Rightarrow> state \<Rightarrow> pydict
   \<Rightarrow> (exc + user response) \<times> state" where
  "SignUpVeiwSet_post serializer gen EMAIL_YAMDB now st request_data =
     (case signup_is_valid serializer request_data (User_objects st) of
        Inl errs \<Rightarrow> (Inl (ValidationError errs), st)
      | Inr validated \<Rightarrow>
          (let (usr, saved) = signup_save serializer validated (User_objects st);
               st1 = st\<lparr>User_objects := saved\<rparr>;
               st2 = snd (send_confirmation_code gen EMAIL_YAMDB now usr st1);
               st3 = (if \<not> truth usr \<and> is_active usr then user_delete usr st2 else st2)
           in (Inr \<lparr>data = Object usr, status = 200\<rparr>, st3)))"

subsection \<open>TokenViewSet.post\<close>

record token_data =
  td_username :: string
  td_confirmation_code :: string

text \<open>
  \<^verbatim>\<open>
  def post(self, request):
      serializer = TokenSerializer(data=request.data)
      serializer.is_valid(raise_exception=True)
      username = serializer.data['username']
      confirmation_code = serializer.data['confirmation_code']
      user = get_object_or_404(User, username=username)
      if not default_token_generator.check_token(user, confirmation_code):
          return Response(status=status.HTTP_400_BAD_REQUEST)
      token = RefreshToken.for_user(user)
      return Response({'token': str(token.access_token)},
                      status=status.HTTP_200_OK)
  \<close>
  \<open>token_is_valid\<close> is the validation of \<open>TokenSerializer\<close> (a parameter, as
  above), \<open>access_token now user\<close> is \<open>str(RefreshToken.for_user(user).access_token)\<close>
  issued at time \<open>now\<close>.
\<close>

definition TokenViewSet_post ::
  "(pydict \<Rightarrow> user list \<Rightarrow> errors + token_data) \<Rightarrow> token_generator
   \<Rightarrow> (nat \<Rightarrow> user \<Rightarrow> string) \<Rightarrow> nat \<Rightarrow> state \<Rightarrow> pydict
   \<Rightarrow> (exc + user response) \<times> state" where
  "TokenViewSet_post token_is_valid gen access_token now st request_data =
     (case token_is_valid request_data (User_objects st) of
        Inl errs \<Rightarrow> (Inl (ValidationError errs), st)
      | Inr serializer_data \<Rightarrow>
          (let uname = td_username serializer_data;
               confirmation_code = td_confirmation_code serializer_data
           in case get_object_or_404 (\<lambda>u. username u = uname) (User_objects st) of
                Inl e \<Rightarrow> (Inl e, st)
              | Inr usr \<Rightarrow>
                  if \<not> check_token gen now usr confirmation_code
                  then (Inr \<lparr>data = NoData, status = 400\<rparr>, st)
                  else (Inr \<lparr>data = TokenData (access_token now usr), status = 200\<rparr>,
                        st)))"

subsection \<open>Permissions\<close>

text \<open>
  A permission class answers for a request (\<open>has_permission\<close>) and for a request and
  the object it addresses (\<open>has_object_permission\<close>, true in DRF's
  \<open>BasePermission\<close> unless overridden). \<open>IsAuthenticated\<close> and
  \<open>IsAuthenticatedOrReadOnly\<close> are DRF's; the classes of api/permissions.py are not
  at hand and are parameters of the views.
\<close>

record 'obj permission =
  has_permission :: "request \<Rightarrow> bool"
  has_object_permission :: "request \<Rightarrow> 'obj \<Rightarrow> bool"

definition SAFE_METHODS :: "string list" where
  "SAFE_METHODS = [''GET'', ''HEAD'', ''OPTIONS'']"

definition IsAuthenticated :: "'obj permission" where
  "IsAuthenticated =
     \<lparr>has_permission = (\<lambda>request. req_user request \<noteq> None),
      has_object_permission = (\<lambda>request obj. True)\<rparr>"

definition IsAuthenticatedOrReadOnly :: "'obj permission" where
  "IsAuthenticatedOrReadOnly =
     \<lparr>has_permission =
        (\<lambda>request. req_method request \<in> set SAFE_METHODS \<or> req_user request \<noteq> None),
      has_object_permission = (\<lambda>request obj. True)\<rparr>"

text \<open>
  \<open>APIView.permission_denied\<close>: a request without credentials is answered 401,
  one with credentials 403. \<open>check_permissions\<close> and \<open>check_object_permissions\<close>
  ask the classes in the order of \<open>permission_classes\<close> and stop at the first
  refusal.
\<close>

definition permission_denied :: "request \<Rightarrow> exc" where
  "permission_denied request =
     (if req_user request = None then NotAuthenticated else PermissionDenied)"

fun check_permissions :: "'obj permission list \<Rightarrow> request \<Rightarrow> exc + unit" where
  "check_permissions [] request = Inr ()"
| "check_permissions (perm # perms) request =
     (if \<not> has_permission perm request then Inl (permission_denied request)
      else check_permissions perms request)"

fun check_object_permissions :: "'obj permission list \<Rightarrow> request \<Rightarrow> 'obj \<Rightarrow> exc + unit" where
  "check_object_permissions [] request obj = Inr ()"
| "check_object_permissions (perm # perms) request obj =
     (if \<not> has_object_permission perm request obj then Inl (permission_denied request)
      else check_object_permissions perms request obj)"

subsection \<open>UserViewSet.me\<close>

text \<open>
  \<open>ModelSerializer.update(instance, validated_data)\<close> sets every item of the
  dictionary as an attribute of the instance; \<open>instance.save()\<close> then writes the
  columns. An item that names no column (such as \<open>partial\<close>) leaves the row as it is.
\<close>

definition ModelSerializer_update_user :: "user \<Rightarrow> pydict \<Rightarrow> user" where
  "ModelSerializer_update_user instance validated_data =
     instance
       \<lparr>username :=
          (case validated_data ''username'' of Some (PyStr s) \<Rightarrow> s | _ \<Rightarrow> username instance),
        email :=
          (case validated_data ''email'' of Some (PyStr s) \<Rightarrow> s | _ \<Rightarrow> email instance),
        role :=
          (case validated_data ''role'' of Some (PyStr s) \<Rightarrow> s | _ \<Rightarrow> role instance),
        is_active :=
          (case validated_data ''is_active'' of Some (PyBool b) \<Rightarrow> b
           | _ \<Rightarrow> is_active instance)\<rparr>"

text \<open>
  \<^verbatim>\<open>
  @action(detail=False, methods=('get', 'patch'),
          permission_classes=(IsAuthenticated,), url_path='me', url_name='me')
  def me(self, request, *args, **kwargs):
      instance = self.request.user
      serializer = self.get_serializer(instance)
      if self.request.method == 'GET':
          return Response(serializer.data)
      serializer = self.get_serializer(
          instance, data=request.data, partial=True)
      serializer.is_valid(raise_exception=True)
      serializer.save(role=instance.role, partial=True)
      return Response(serializer.data)
  \<close>
  \<open>serializer.save(**kwargs)\<close> updates the instance with
  \<open>{**validated_data, **kwargs}\<close>: an entry of \<open>kwargs\<close> replaces the entry of
  that name. \<open>user_is_valid\<close> is the validation of \<open>UserSerializer\<close>, a parameter.
  \<open>IsAuthenticated\<close> refuses \<open>AnonymousUser\<close>, which has no attribute
  \<open>role\<close>; the branch for it is not reached.

  The route of the action maps GET and PATCH to \<open>me\<close>, and HEAD where GET goes
  (inside \<open>me\<close> the method of such a request is not \<open>'GET'\<close>). After the
  permissions, OPTIONS is answered with the metadata of the view and any other
  method with 405; neither reaches \<open>me\<close>.
\<close>

definition UserViewSet_me ::
  "(user \<Rightarrow> pydict \<Rightarrow> state \<Rightarrow> errors + pydict) \<Rightarrow> state \<Rightarrow> request
   \<Rightarrow> (exc + user response) \<times> state" where
  "UserViewSet_me user_is_valid st request =
     (case check_permissions [IsAuthenticated :: user permission] request of
        Inl e \<Rightarrow> (Inl e, st)
      | Inr _ \<Rightarrow>
          if req_method request \<notin> set [''GET'', ''HEAD'', ''PATCH'']
          then
            (if req_method request = ''OPTIONS''
             then (Inr \<lparr>data = Metadata, status = 200\<rparr>, st)
             else (Inl MethodNotAllowed, st))
          else
            (case req_user request of
               None \<Rightarrow> (Inl AttributeError, st)
             | Some instance \<Rightarrow>
                 if req_method request = ''GET''
                 then (Inr \<lparr>data = Object instance, status = 200\<rparr>, st)
                 else
                   (case user_is_valid instance (req_data request) st of
                      Inl errs \<Rightarrow> (Inl (ValidationError errs), st)
                    | Inr validated_data \<Rightarrow>
                        (let saved = ModelSerializer_update_user instance
                               (validated_data ++
                                  [''role'' \<mapsto> PyStr (role instance),
                                   ''partial'' \<mapsto> PyBool True])
                         in (Inr \<lparr>data = Object saved, status = 200\<rparr>,
                             st\<lparr>User_objects :=
                                  save_row user_id saved (User_objects st)\<rparr>)))))"

subsection \<open>ModelViewSet\<close>

text \<open>
  \<open>ReviewViewSet\<close> and \<open>CommentViewSet\<close> inherit DRF's \<open>ModelViewSet\<close> and
  override \<open>get_queryset\<close> and \<open>perform_create\<close>. The inherited part is written
  once, over a record of the methods and attributes a subclass provides.
\<close>

record 'obj viewset =
  permission_classes :: "'obj permission list"
  get_queryset :: "request \<Rightarrow> state \<Rightarrow> exc + 'obj list"
  lookup_pk :: "'obj \<Rightarrow> nat"
  is_valid :: "'obj option \<Rightarrow> request \<Rightarrow> state \<Rightarrow> errors + pydict"
  perform_create :: "request \<Rightarrow> pydict \<Rightarrow> state \<Rightarrow> exc + 'obj \<times> state"
  perform_update :: "'obj \<Rightarrow> pydict \<Rightarrow> state \<Rightarrow> 'obj \<times> state"
  perform_destroy :: "'obj \<Rightarrow> state \<Rightarrow> state"

text \<open>
  The routes of a DRF router: on the collection, GET is \<open>list\<close> and POST is
  \<open>create\<close>; on an item (the URL captured \<open>pk\<close>), GET is \<open>retrieve\<close>, PUT
  \<open>update\<close>, PATCH \<open>partial_update\<close> and DELETE \<open>destroy\<close>. HEAD goes where GET
  goes.
\<close>

datatype action = A_list | A_create | A_retrieve | A_update | A_partial_update | A_destroy

definition route :: "request \<Rightarrow> action option" where
  "route request =
     (let m = req_method request in
      case url_kwargs request ''pk'' of
        None \<Rightarrow>
          if m = ''GET'' \<or> m = ''HEAD'' then Some A_list
          else if m = ''POST'' then Some A_create
          else None
      | Some pk \<Rightarrow>
          if m = ''GET'' \<or> m = ''HEAD'' then Some A_retrieve
          else if m = ''PUT'' then Some A_update
          else if m = ''PATCH'' then Some A_partial_update
          else if m = ''DELETE'' then Some A_destroy
          else None)"

text \<open>
  \<open>GenericAPIView.get_object\<close>: the object of the queryset that the URL's \<open>pk\<close>
  names, after the object permissions.
\<close>

definition get_object :: "'obj viewset \<Rightarrow> request \<Rightarrow> state \<Rightarrow> exc + 'obj" where
  "get_object view request st =
     (case get_queryset view request st of
        Inl e \<Rightarrow> Inl e
      | Inr queryset \<Rightarrow>
          (case get_object_or_404
                  (\<lambda>obj. Some (lookup_pk view obj) = url_kwargs request ''pk'') queryset of
             Inl e \<Rightarrow> Inl e
           | Inr obj \<Rightarrow>
               (case check_object_permissions (permission_classes view) request obj of
                  Inl e \<Rightarrow> Inl e
                | Inr _ \<Rightarrow> Inr obj)))"

text \<open>
  The mixins. \<open>create\<close> validates and then calls \<open>perform_create\<close>; \<open>update\<close>
  (also for a partial update) and \<open>destroy\<close> fetch the object first.
\<close>

definition ModelViewSet_list ::
  "'obj viewset \<Rightarrow> state \<Rightarrow> request \<Rightarrow> (exc + 'obj response) \<times> state" where
  "ModelViewSet_list view st request =
     (case get_queryset view request st of
        Inl e \<Rightarrow> (Inl e, st)
      | Inr queryset \<Rightarrow> (Inr \<lparr>data = Objects queryset, status = 200\<rparr>, st))"

definition ModelViewSet_create ::
  "'obj viewset \<Rightarrow> state \<Rightarrow> request \<Rightarrow> (exc + 'obj response) \<times> state" where
  "ModelViewSet_create view st request =
     (case is_valid view None request st of
        Inl errs \<Rightarrow> (Inl (ValidationError errs), st)
      | Inr validated_data \<Rightarrow>
          (case perform_create view request validated_data st of
             Inl e \<Rightarrow> (Inl e, st)
           | Inr (obj, st') \<Rightarrow> (Inr \<lparr>data = Object obj, status = 201\<rparr>, st')))"

definition ModelViewSet_retrieve ::
  "'obj viewset \<Rightarrow> state \<Rightarrow> request \<Rightarrow> (exc + 'obj response) \<times> state" where
  "ModelViewSet_retrieve view st request =
     (case get_object view request st of
        Inl e \<Rightarrow> (Inl e, st)
      | Inr obj \<Rightarrow> (Inr \<lparr>data = Object obj, status = 200\<rparr>, st))"

definition ModelViewSet_update ::
  "'obj viewset \<Rightarrow> state \<Rightarrow> request \<Rightarrow> (exc + 'obj response) \<times> state" where
  "ModelViewSet_update view st request =
     (case get_object view request st of
        Inl e \<Rightarrow> (Inl e, st)
      | Inr instance \<Rightarrow>
          (case is_valid view (Some instance) request st of
             Inl errs \<Rightarrow> (Inl (ValidationError errs), st)
           | Inr validated_data \<Rightarrow>
               (let (obj, st') = perform_update view instance validated_data st
                in (Inr \<lparr>data = Object obj, status = 200\<rparr>, st'))))"

definition ModelViewSet_destroy ::
  "'obj viewset \<Rightarrow> state \<Rightarrow> request \<Rightarrow> (exc + 'obj response) \<times> state" where
  "ModelViewSet_destroy view st request =
     (case get_object view request st of
        Inl e \<Rightarrow> (Inl e, st)
      | Inr instance \<Rightarrow>
          (Inr \<lparr>data = NoData, status = 204\<rparr>, perform_destroy view instance st))"

text \<open>
  \<open>APIView.dispatch\<close>: the permissions of the request are checked before the handler
  is looked up. OPTIONS is answered by \<open>APIView.options\<close> with the metadata of the
  view (\<open>SimpleMetadata\<close> tries \<open>get_object\<close> and passes over its \<open>Http404\<close>); a
  method with no route is answered 405.
\<close>

definition ModelViewSet_dispatch ::
  "'obj viewset \<Rightarrow> state \<Rightarrow> request \<Rightarrow> (exc + 'obj response) \<times> state" where
  "ModelViewSet_dispatch view st request =
     (case check_permissions (permission_classes view) request of
        Inl e \<Rightarrow> (Inl e, st)
      | Inr _ \<Rightarrow>
          (case route request of
             None \<Rightarrow>
               if req_method request = ''OPTIONS''
               then (Inr \<lparr>data = Metadata, status = 200\<rparr>, st)
               else (Inl MethodNotAllowed, st)
           | Some A_list \<Rightarrow> ModelViewSet_list view st request
           | Some A_create \<Rightarrow> ModelViewSet_create view st request
           | Some A_retrieve \<Rightarrow> ModelViewSet_retrieve view st request
           | Some A_update \<Rightarrow> ModelViewSet_update view st request
           | Some A_partial_update \<Rightarrow> ModelViewSet_update view st request
           | Some A_destroy \<Rightarrow> ModelViewSet_destroy view st request))"

text \<open>\<open>self.request.user\<close> as a value passed to \<open>serializer.save\<close>.\<close>

definition request_user :: "request \<Rightarrow> pyval" where
  "request_user request =
     (case req_user request of None \<Rightarrow> AnonymousUser | Some u \<Rightarrow> UserObj u)"

subsection \<open>ReviewViewSet\<close>

text \<open>
  \<open>Review.objects.create(**validated_data)\<close>, which \<open>ModelSerializer.create\<close>
  calls: assigning something that is no instance of the related model to a foreign
  key raises \<open>ValueError\<close>, a missing column value is refused by the database.
\<close>

definition Review_objects_create :: "pydict \<Rightarrow> state \<Rightarrow> exc + review \<times> state" where
  "Review_objects_create validated_data st =
     (case validated_data ''author'' of
        Some (UserObj u) \<Rightarrow>
          (case validated_data ''title'' of
             Some (TitleObj t) \<Rightarrow>
               (case validated_data ''text'' of
                  Some (PyStr s) \<Rightarrow>
                    (case validated_data ''score'' of
                       Some (PyInt n) \<Rightarrow>
                         (let obj = \<lparr>review_id = next_pk (Review_pk_seq st)
                                                   (map review_id (Review_objects st)),
                                     review_title = title_id t, review_author = user_id u,
                                     review_text = s, score = n\<rparr>
                          in Inr (obj, st\<lparr>Review_objects := Review_objects st @ [obj],
                                          Review_pk_seq := review_id obj\<rparr>))
                     | _ \<Rightarrow> Inl IntegrityError)
                | _ \<Rightarrow> Inl IntegrityError)
           | _ \<Rightarrow> Inl ValueError)
      | _ \<Rightarrow> Inl ValueError)"

text \<open>\<open>serializer.save()\<close> of an update: \<open>ModelSerializer.update\<close>, then \<open>save()\<close>.\<close>

definition Review_update :: "review \<Rightarrow> pydict \<Rightarrow> state \<Rightarrow> review \<times> state" where
  "Review_update instance validated_data st =
     (let obj = instance
            \<lparr>review_title :=
               (case validated_data ''title'' of Some (TitleObj t) \<Rightarrow> title_id t
                | _ \<Rightarrow> review_title instance),
             review_author :=
               (case validated_data ''author'' of Some (UserObj u) \<Rightarrow> user_id u
                | _ \<Rightarrow> review_author instance),
             review_text :=
               (case validated_data ''text'' of Some (PyStr s) \<Rightarrow> s
                | _ \<Rightarrow> review_text instance),
             score :=
               (case validated_data ''score'' of Some (PyInt n) \<Rightarrow> n | _ \<Rightarrow> score instance)\<rparr>
      in (obj, st\<lparr>Review_objects := save_row review_id obj (Review_objects st)\<rparr>))"

text \<open>
  Modelled from the spec: \<open>instance.delete()\<close> of a review takes its comments with
  it (the cascade of the spec's data model).
\<close>

definition Review_delete :: "review \<Rightarrow> state \<Rightarrow> state" where
  "Review_delete instance st =
     st\<lparr>Review_objects := filter (\<lambda>r. review_id r \<noteq> review_id instance) (Review_objects st),
        Comment_objects :=
          filter (\<lambda>c. comment_review c \<noteq> review_id instance) (Comment_objects st)\<rparr>"

text \<open>
  \<^verbatim>\<open>
  def get_title(self):
      title = get_object_or_404(Title, id=self.kwargs.get('title_id'))
      return title

  def get_queryset(self):
      return get_object_or_404(
          Title, id=self.kwargs.get('title_id')
      ).reviews.all()

  def perform_create(self, serializer):
      serializer.save(
          author=self.request.user,
          title=get_object_or_404(
              Title, id=self.kwargs.get('title_id')
          )
      )
  \<close>
  \<open>self.kwargs.get('title_id')\<close> is \<open>None\<close> when the URL captured no such
  argument, and no row has the key \<open>None\<close>.
\<close>

definition ReviewViewSet_get_title :: "request \<Rightarrow> state \<Rightarrow> exc + title" where
  "ReviewViewSet_get_title request st =
     get_object_or_404 (\<lambda>t. Some (title_id t) = url_kwargs request ''title_id'')
       (Title_objects st)"

definition ReviewViewSet_get_queryset :: "request \<Rightarrow> state \<Rightarrow> exc + review list" where
  "ReviewViewSet_get_queryset request st =
     (case get_object_or_404 (\<lambda>t. Some (title_id t) = url_kwargs request ''title_id'')
             (Title_objects st) of
        Inl e \<Rightarrow> Inl e
      | Inr t \<Rightarrow> Inr (filter (\<lambda>r. review_title r = title_id t) (Review_objects st)))"

definition ReviewViewSet_perform_create ::
  "request \<Rightarrow> pydict \<Rightarrow> state \<Rightarrow> exc + review \<times> state" where
  "ReviewViewSet_perform_create request validated_data st =
     (let author = request_user request in
      case get_object_or_404 (\<lambda>t. Some (title_id t) = url_kwargs request ''title_id'')
             (Title_objects st) of
        Inl e \<Rightarrow> Inl e
      | Inr t \<Rightarrow>
          Review_objects_create
            (validated_data ++ [''author'' \<mapsto> author, ''title'' \<mapsto> TitleObj t]) st)"

text \<open>
  \<^verbatim>\<open>
  class ReviewViewSet(viewsets.ModelViewSet):
      serializer_class = ReviewSerializer
      permission_classes = (IsAuthenticatedOrReadOnly,
                            IsAdminOrAuthorOrReadOnly)
  \<close>
\<close>

definition ReviewViewSet ::
  "(review option \<Rightarrow> request \<Rightarrow> state \<Rightarrow> errors + pydict) \<Rightarrow> review permission
   \<Rightarrow> review viewset" where
  "ReviewViewSet ReviewSerializer IsAdminOrAuthorOrReadOnly =
     \<lparr>permission_classes = [IsAuthenticatedOrReadOnly, IsAdminOrAuthorOrReadOnly],
      get_queryset = ReviewViewSet_get_queryset,
      lookup_pk = review_id,
      is_valid = ReviewSerializer,
      perform_create = ReviewViewSet_perform_create,
      perform_update = Review_update,
      perform_destroy = Review_delete\<rparr>"

subsection \<open>CommentViewSet\<close>

definition Comment_objects_create :: "pydict \<Rightarrow> state \<Rightarrow> exc + comment \<times> state" where
  "Comment_objects_create validated_data st =
     (case validated_data ''author'' of
        Some (UserObj u) \<Rightarrow>
          (case validated_data ''review'' of
             Some (ReviewObj r) \<Rightarrow>
               (case validated_data ''text'' of
                  Some (PyStr s) \<Rightarrow>
                    (let obj = \<lparr>comment_id = next_pk (Comment_pk_seq st)
                                               (map comment_id (Comment_objects st)),
                                comment_review = review_id r, comment_author = user_id u,
                                comment_text = s\<rparr>
                     in Inr (obj, st\<lparr>Comment_objects := Comment_objects st @ [obj],
                                     Comment_pk_seq := comment_id obj\<rparr>))
                | _ \<Rightarrow> Inl IntegrityError)
           | _ \<Rightarrow> Inl ValueError)
      | _ \<Rightarrow> Inl ValueError)"

definition Comment_update :: "comment \<Rightarrow> pydict \<Rightarrow> state \<Rightarrow> comment \<times> state" where
  "Comment_update instance validated_data st =
     (let obj = instance
            \<lparr>comment_review :=
               (case validated_data ''review'' of Some (ReviewObj r) \<Rightarrow> review_id r
                | _ \<Rightarrow> comment_review instance),
             comment_author :=
               (case validated_data ''author'' of Some (UserObj u) \<Rightarrow> user_id u
                | _ \<Rightarrow> comment_author instance),
             comment_text :=
               (case validated_data ''text'' of Some (PyStr s) \<Rightarrow> s
                | _ \<Rightarrow> comment_text instance)\<rparr>
      in (obj, st\<lparr>Comment_objects := save_row comment_id obj (Comment_objects st)\<rparr>))"

definition Comment_delete :: "comment \<Rightarrow> state \<Rightarrow> state" where
  "Comment_delete instance st =
     st\<lparr>Comment_objects :=
          filter (\<lambda>c. comment_id c \<noteq> comment_id instance) (Comment_objects st)\<rparr>"

text \<open>
  \<^verbatim>\<open>
  def get_review(self):
      review = get_object_or_404(Review, id=self.kwargs.get('review_id'))
      return review

  def get_queryset(self):
      return self.get_review().comments.all()

  def perform_create(self, serializer):
      serializer.save(author=self.request.user, review=self.get_review())
  \<close>
\<close>

definition CommentViewSet_get_review :: "request \<Rightarrow> state \<Rightarrow> exc + review" where
  "CommentViewSet_get_review request st =
     get_object_or_404 (\<lambda>r. Some (review_id r) = url_kwargs request ''review_id'')
       (Review_objects st)"

definition CommentViewSet_get_queryset :: "request \<Rightarrow> state \<Rightarrow> exc + comment list" where
  "CommentViewSet_get_queryset request st =
     (case CommentViewSet_get_review request st of
        Inl e \<Rightarrow> Inl e
      | Inr r \<Rightarrow> Inr (filter (\<lambda>c. comment_review c = review_id r) (Comment_objects st)))"

definition CommentViewSet_perform_create ::
  "request \<Rightarrow> pydict \<Rightarrow> state \<Rightarrow> exc + comment \<times> state" where
  "CommentViewSet_perform_create request validated_data st =
     (let author = request_user request in
      case CommentViewSet_get_review request st of
        Inl e \<Rightarrow> Inl e
      | Inr r \<Rightarrow>
          Comment_objects_create
            (validated_data ++ [''author'' \<mapsto> author, ''review'' \<mapsto> ReviewObj r]) st)"

definition CommentViewSet ::
  "(comment option \<Rightarrow> request \<Rightarrow> state \<Rightarrow> errors + pydict) \<Rightarrow> comment permission
   \<Rightarrow> comment viewset" where
  "CommentViewSet CommentSerializer IsAdminOrAuthorOrReadOnly =
     \<lparr>permission_classes = [IsAuthenticatedOrReadOnly, IsAdminOrAuthorOrReadOnly],
      get_queryset = CommentViewSet_get_queryset,
      lookup_pk = comment_id,
      is_valid = CommentSerializer,
      perform_create = CommentViewSet_perform_create,
      perform_update = Comment_update,
      perform_destroy = Comment_delete\<rparr>"

subsection \<open>Referential integrity\<close>

text \<open>
  Every stored review refers to a stored title and a stored user, every stored
  comment to a stored review and a stored user.
\<close>

definition refs_ok :: "state \<Rightarrow> bool" where
  "refs_ok st =
     ((\<forall>r \<in> set (Review_objects st).
          review_title r \<in> title_id ` set (Title_objects st)
          \<and> review_author r \<in> user_id ` set (User_objects st))
      \<and> (\<forall>c \<in> set (Comment_objects st).
          comment_review c \<in> review_id ` set (Review_objects st)
          \<and> comment_author c \<in> user_id ` set (User_objects st)))"

subsection \<open>Concrete instances\<close>

text \<open>
  Instances of the parameters and a small state, on which the views are evaluated:
  serializers that require their fields, a generator whose code for a user does not
  depend on the clock, and a permission that lets the author or an administrator
  write.
\<close>

definition required :: "string \<Rightarrow> errors" where
  "required field = [(field, [''This field is required.''])]"

definition demo_signup_is_valid :: "pydict \<Rightarrow> user list \<Rightarrow> errors + signup_data" where
  "demo_signup_is_valid request_data us =
     (case request_data ''username'' of
        Some (PyStr n) \<Rightarrow>
          (case request_data ''email'' of
             Some (PyStr e) \<Rightarrow> Inr \<lparr>sd_username = n, sd_email = e\<rparr>
           | _ \<Rightarrow> Inl (required ''email''))
      | _ \<Rightarrow> Inl (required ''username''))"

definition demo_signup_save :: "signup_data \<Rightarrow> user list \<Rightarrow> user \<times> user list" where
  "demo_signup_save v us =
     (case filter (\<lambda>u. username u = sd_username v \<and> email u = sd_email v) us of
        u # _ \<Rightarrow> (u, us)
      | [] \<Rightarrow>
          (let u = \<lparr>user_id = Suc (fold max (map user_id us) 0), username = sd_username v,
                    email = sd_email v, role = ''user'', is_active = True\<rparr>
           in (u, us @ [u])))"

definition demo_signup :: signup_serializer where
  "demo_signup = \<lparr>signup_is_valid = demo_signup_is_valid, signup_save = demo_signup_save\<rparr>"

definition demo_token_is_valid :: "pydict \<Rightarrow> user list \<Rightarrow> errors + token_data" where
  "demo_token_is_valid request_data us =
     (case request_data ''username'' of
        Some (PyStr n) \<Rightarrow>
          (case request_data ''confirmation_code'' of
             Some (PyStr c) \<Rightarrow> Inr \<lparr>td_username = n, td_confirmation_code = c\<rparr>
           | _ \<Rightarrow> Inl (required ''confirmation_code''))
      | _ \<Rightarrow> Inl (required ''username''))"

definition demo_generator :: token_generator where
  "demo_generator =
     \<lparr>make_token = (\<lambda>now u. ''code-'' @ username u),
      check_token = (\<lambda>now u c. c = ''code-'' @ username u)\<rparr>"

definition demo_access_token :: "nat \<Rightarrow> user \<Rightarrow> string" where
  "demo_access_token now u = ''jwt-'' @ username u"

definition demo_user_is_valid :: "user \<Rightarrow> pydict \<Rightarrow> state \<Rightarrow> errors + pydict" where
  "demo_user_is_valid instance request_data st =
     (case request_data ''email'' of
        Some (PyStr e) \<Rightarrow>
          if e = [] then Inl [(''email'', [''This field may not be blank.''])]
          else Inr request_data
      | _ \<Rightarrow> Inr request_data)"

definition demo_review_is_valid ::
  "review option \<Rightarrow> request \<Rightarrow> state \<Rightarrow> errors + pydict" where
  "demo_review_is_valid instance request st =
     (case req_data request ''text'' of
        Some (PyStr s) \<Rightarrow>
          (case req_data request ''score'' of
             Some (PyInt n) \<Rightarrow>
               if 1 \<le> n \<and> n \<le> 10 then Inr [''text'' \<mapsto> PyStr s, ''score'' \<mapsto> PyInt n]
               else Inl [(''score'', [''Ensure this value is between 1 and 10.''])]
           | _ \<Rightarrow> Inl (required ''score''))
      | _ \<Rightarrow> Inl (required ''text''))"

definition demo_comment_is_valid ::
  "comment option \<Rightarrow> request \<Rightarrow> state \<Rightarrow> errors + pydict" where
  "demo_comment_is_valid instance request st =
     (case req_data request ''text'' of
        Some (PyStr s) \<Rightarrow> Inr [''text'' \<mapsto> PyStr s]
      | _ \<Rightarrow> Inl (required ''text''))"

definition demo_author_or_read_only :: "('obj \<Rightarrow> nat) \<Rightarrow> 'obj permission" where
  "demo_author_or_read_only author =
     \<lparr>has_permission =
        (\<lambda>request. req_method request \<in> set SAFE_METHODS \<or> req_user request \<noteq> None),
      has_object_permission =
        (\<lambda>request obj. req_method request \<in> set SAFE_METHODS
           \<or> (case req_user request of
                 None \<Rightarrow> False
               | Some u \<Rightarrow> role u = ''admin'' \<or> user_id u = author obj))\<rparr>"

definition bob :: user where
  "bob = \<lparr>user_id = 1, username = ''bob'', email = ''bob@example.com'', role = ''user'',
          is_active = True\<rparr>"

definition solaris :: title where
  "solaris = \<lparr>title_id = 1, title_name = ''Solaris''\<rparr>"

definition demo_state :: state where
  "demo_state =
     \<lparr>User_objects = [bob],
      Title_objects = [solaris, \<lparr>title_id = 2, title_name = ''Stalker''\<rparr>],
      Review_objects =
        [\<lparr>review_id = 1, review_title = 1, review_author = 1, review_text = ''slow'',
          score = 7\<rparr>,
         \<lparr>review_id = 2, review_title = 1, review_author = 1, review_text = ''deep'',
          score = 8\<rparr>],
      Comment_objects = [],
      Review_pk_seq = 2,
      Comment_pk_seq = 0,
      outbox = []\<rparr>"

text \<open>A PATCH to \<open>/me\<close> that submits a role and a new address.\<close>

definition patch_me :: request where
  "patch_me =
     \<lparr>req_method = ''PATCH'', req_user = Some bob,
      req_data = [''role'' \<mapsto> PyStr ''admin'', ''email'' \<mapsto> PyStr ''rob@example.com''],
      url_kwargs = Map.empty\<rparr>"

text \<open>
  Requests to the review and comment endpoints: a POST without credentials and a POST
  by a user, both under a title and a review that do not exist, and a POST by a user
  under a stored title and review.
\<close>

definition anon_post :: request where
  "anon_post =
     \<lparr>req_method = ''POST'', req_user = None,
      req_data = [''text'' \<mapsto> PyStr ''fine'', ''score'' \<mapsto> PyInt 9],
      url_kwargs = [''title_id'' \<mapsto> 99, ''review_id'' \<mapsto> 99]\<rparr>"

definition bob_post_missing :: request where
  "bob_post_missing =
     \<lparr>req_method = ''POST'', req_user = Some bob,
      req_data = [''text'' \<mapsto> PyStr ''fine'', ''score'' \<mapsto> PyInt 9],
      url_kwargs = [''title_id'' \<mapsto> 99, ''review_id'' \<mapsto> 99]\<rparr>"

definition bob_post :: request where
  "bob_post =
     \<lparr>req_method = ''POST'', req_user = Some bob,
      req_data = [''text'' \<mapsto> PyStr ''fine'', ''score'' \<mapsto> PyInt 9],
      url_kwargs = [''title_id'' \<mapsto> 2, ''review_id'' \<mapsto> 1]\<rparr>"

section \<open>Properties\<close>

lemmas demo_defs = required_def demo_signup_is_valid_def demo_signup_save_def demo_signup_def
  demo_token_is_valid_def demo_generator_def demo_access_token_def demo_user_is_valid_def
  demo_review_is_valid_def demo_comment_is_valid_def demo_author_or_read_only_def
  bob_def solaris_def demo_state_def next_pk_def

subsection \<open>Signup\<close>

lemma SignUpVeiwSet_post_valid:
  assumes "signup_is_valid ser p (User_objects st) = Inr v"
      and "signup_save ser v (User_objects st) = (usr, saved)"
  shows "SignUpVeiwSet_post ser gen E now st p =
           (Inr \<lparr>data = Object usr, status = 200\<rparr>,
            (let st2 = snd (send_confirmation_code gen E now usr (st\<lparr>User_objects := saved\<rparr>))
             in if \<not> truth usr \<and> is_active usr then user_delete usr st2 else st2))"
  using assms by (simp add: SignUpVeiwSet_post_def Let_def)

text \<open>
  C6. For a signup request whose payload passes validation, a confirmation code is
  made for the user that \<open>serializer.save()\<close> returns, one message carrying that
  code is sent to the user's address, and the response is 200.
\<close>

theorem signup_sends_confirmation_code:
  assumes "signup_is_valid ser p (User_objects st) = Inr v"
      and "signup_save ser v (User_objects st) = (usr, saved)"
  shows "SignUpVeiwSet_post ser gen E now st p =
           (Inr \<lparr>data = Object usr, status = 200\<rparr>,
            st\<lparr>User_objects := saved,
               outbox := outbox st @
                 [\<lparr>subject = SEND_CODE_MESSAGE, message = make_token gen now usr,
                   from_email = E, recipient_list = [email usr]\<rparr>]\<rparr>)"
  unfolding SignUpVeiwSet_post_valid [OF assms]
  by (simp add: send_confirmation_code_def send_mail_def truth_def Let_def)

theorem signup_sends_confirmation_code_witness:
  "signup_is_valid demo_signup [''username'' \<mapsto> PyStr ''ann'', ''email'' \<mapsto> PyStr ''ann@example.com'']
      (User_objects demo_state) = Inr \<lparr>sd_username = ''ann'', sd_email = ''ann@example.com''\<rparr>
   \<and> SignUpVeiwSet_post demo_signup demo_generator ''yamdb@example.com'' 7 demo_state
        [''username'' \<mapsto> PyStr ''ann'', ''email'' \<mapsto> PyStr ''ann@example.com''] =
       (Inr \<lparr>data = Object \<lparr>user_id = 2, username = ''ann'', email = ''ann@example.com'',
                               role = ''user'', is_active = True\<rparr>, status = 200\<rparr>,
        demo_state\<lparr>User_objects := [bob, \<lparr>user_id = 2, username = ''ann'',
             email = ''ann@example.com'', role = ''user'', is_active = True\<rparr>],
           outbox := [\<lparr>subject = SEND_CODE_MESSAGE, message = ''code-ann'',
                   from_email = ''yamdb@example.com'', recipient_list = [''ann@example.com'']\<rparr>]\<rparr>)"
proof -
  let ?p = "[''username'' \<mapsto> PyStr ''ann'', ''email'' \<mapsto> PyStr ''ann@example.com'']"
  let ?v = "\<lparr>sd_username = ''ann'', sd_email = ''ann@example.com''\<rparr>"
  let ?u = "\<lparr>user_id = 2, username = ''ann'', email = ''ann@example.com'',
             role = ''user'', is_active = True\<rparr>"
  have v: "signup_is_valid demo_signup ?p (User_objects demo_state) = Inr ?v"
    by (simp add: demo_defs)
  have s: "signup_save demo_signup ?v (User_objects demo_state) = (?u, [bob, ?u])"
    by (simp add: demo_defs Let_def)
  show ?thesis
    using v signup_sends_confirmation_code [OF v s, of demo_generator "''yamdb@example.com''" 7]
    by (simp add: demo_defs)
qed


text \<open>
  C9. For a valid signup request the guard \<open>not user and user.is_active\<close> is false,
  since the saved user is a model instance and so true; \<open>user.delete()\<close> is not
  reached and the table of users is the one \<open>serializer.save()\<close> left.
\<close>

theorem signup_never_deletes:
  assumes "signup_is_valid ser p (User_objects st) = Inr v"
      and "signup_save ser v (User_objects st) = (usr, saved)"
  shows "\<not> (\<not> truth usr \<and> is_active usr)
         \<and> User_objects (snd (SignUpVeiwSet_post ser gen E now st p)) = saved"
  unfolding SignUpVeiwSet_post_valid [OF assms]
  by (simp add: send_confirmation_code_def send_mail_def truth_def Let_def)

theorem signup_never_deletes_witness:
  "signup_is_valid demo_signup [''username'' \<mapsto> PyStr ''bob'', ''email'' \<mapsto> PyStr ''bob@example.com'']
      (User_objects demo_state) = Inr \<lparr>sd_username = ''bob'', sd_email = ''bob@example.com''\<rparr>
   \<and> signup_save demo_signup \<lparr>sd_username = ''bob'', sd_email = ''bob@example.com''\<rparr>
      (User_objects demo_state) = (bob, [bob])
   \<and> is_active bob
   \<and> User_objects (snd (SignUpVeiwSet_post demo_signup demo_generator ''yamdb@example.com'' 7
        demo_state [''username'' \<mapsto> PyStr ''bob'', ''email'' \<mapsto> PyStr ''bob@example.com''])) = [bob]"
proof -
  let ?p = "[''username'' \<mapsto> PyStr ''bob'', ''email'' \<mapsto> PyStr ''bob@example.com'']"
  let ?v = "\<lparr>sd_username = ''bob'', sd_email = ''bob@example.com''\<rparr>"
  have v: "signup_is_valid demo_signup ?p (User_objects demo_state) = Inr ?v"
    by (simp add: demo_defs)
  have s: "signup_save demo_signup ?v (User_objects demo_state) = (bob, [bob])"
    by (simp add: demo_defs Let_def)
  have a: "is_active bob" by (simp add: bob_def)
  show ?thesis
    using v s a signup_never_deletes [OF v s, of demo_generator "''yamdb@example.com''" 7]
    by simp
qed

text \<open>
  C8. A signup or token request whose payload fails validation is answered 400 with
  the field errors of the serializer; no user is created, no mail is sent and no
  token is issued: the state is unchanged.
\<close>

theorem invalid_payload_rejected:
  "(signup_is_valid ser p (User_objects st) = Inl errs \<longrightarrow>
      snd (SignUpVeiwSet_post ser gen E now st p) = st
      \<and> finalize (fst (SignUpVeiwSet_post ser gen E now st p)) =
          \<lparr>data = ErrorData errs, status = 400\<rparr>)
   \<and> (tv q (User_objects st) = Inl errs' \<longrightarrow>
      snd (TokenViewSet_post tv gen jwt now st q) = st
      \<and> finalize (fst (TokenViewSet_post tv gen jwt now st q)) =
          \<lparr>data = ErrorData errs', status = 400\<rparr>
      \<and> \<not> has_token (data (finalize (fst (TokenViewSet_post tv gen jwt now st q)))))"
  by (simp add: SignUpVeiwSet_post_def TokenViewSet_post_def finalize_def)

theorem invalid_payload_rejected_witness:
  "signup_is_valid demo_signup [''username'' \<mapsto> PyStr ''ann''] (User_objects demo_state) =
      Inl (required ''email'')
   \<and> snd (SignUpVeiwSet_post demo_signup demo_generator ''yamdb@example.com'' 7 demo_state
        [''username'' \<mapsto> PyStr ''ann'']) = demo_state
   \<and> finalize (fst (SignUpVeiwSet_post demo_signup demo_generator ''yamdb@example.com'' 7
        demo_state [''username'' \<mapsto> PyStr ''ann''])) =
       \<lparr>data = ErrorData (required ''email''), status = 400\<rparr>
   \<and> demo_token_is_valid [''username'' \<mapsto> PyStr ''bob''] (User_objects demo_state) =
      Inl (required ''confirmation_code'')
   \<and> snd (TokenViewSet_post demo_token_is_valid demo_generator demo_access_token 7 demo_state
        [''username'' \<mapsto> PyStr ''bob'']) = demo_state
   \<and> finalize (fst (TokenViewSet_post demo_token_is_valid demo_generator demo_access_token 7
        demo_state [''username'' \<mapsto> PyStr ''bob''])) =
       \<lparr>data = ErrorData (required ''confirmation_code''), status = 400\<rparr>"
proof -
  let ?p = "[''username'' \<mapsto> PyStr ''ann'']"
  let ?q = "[''username'' \<mapsto> PyStr ''bob'']"
  have v1: "signup_is_valid demo_signup ?p (User_objects demo_state) = Inl (required ''email'')"
    by (simp add: demo_signup_def demo_signup_is_valid_def)
  have v2: "demo_token_is_valid ?q (User_objects demo_state) =
              Inl (required ''confirmation_code'')"
    by (simp add: demo_token_is_valid_def)
  from v1 v2
    invalid_payload_rejected [where ser = demo_signup and p = "?p" and st = demo_state
      and errs = "required ''email''" and gen = demo_generator
      and E = "''yamdb@example.com''" and now = 7 and tv = demo_token_is_valid and q = "?q"
      and errs' = "required ''confirmation_code''" and jwt = demo_access_token]
  show ?thesis by simp
qed

subsection \<open>Token issuance\<close>

lemma get_object_or_404_Inr:
  "get_object_or_404 lookup objects = Inr obj \<Longrightarrow> obj \<in> set objects \<and> lookup obj"
proof -
  assume a: "get_object_or_404 lookup objects = Inr obj"
  then have "filter lookup objects = [obj]"
    by (auto simp: get_object_or_404_def split: list.splits)
  then have "obj \<in> set (filter lookup objects)" by simp
  then show ?thesis by simp
qed

lemma get_object_or_404_single:
  "filter lookup objects = [obj] \<Longrightarrow> get_object_or_404 lookup objects = Inr obj"
  by (simp add: get_object_or_404_def)

text \<open>
  C2. For a token request that names an existing user (and whose payload passes
  validation): when the code checks against the user, the response is 200 and
  carries the access token; when it does not, the response is 400 and carries none.
\<close>

theorem token_post_existing_user:
  assumes "tv p (User_objects st) = Inr d"
      and "filter (\<lambda>u. username u = td_username d) (User_objects st) = [usr]"
  shows "(check_token gen now usr (td_confirmation_code d) \<longrightarrow>
            finalize (fst (TokenViewSet_post tv gen jwt now st p)) =
              \<lparr>data = TokenData (jwt now usr), status = 200\<rparr>)
         \<and> (\<not> check_token gen now usr (td_confirmation_code d) \<longrightarrow>
            finalize (fst (TokenViewSet_post tv gen jwt now st p)) =
              \<lparr>data = NoData, status = 400\<rparr>
            \<and> \<not> has_token (data (finalize (fst (TokenViewSet_post tv gen jwt now st p)))))"
  using assms
  by (simp add: TokenViewSet_post_def get_object_or_404_single finalize_def Let_def)

theorem token_post_existing_user_witness:
  "demo_token_is_valid [''username'' \<mapsto> PyStr ''bob'', ''confirmation_code'' \<mapsto> PyStr ''code-bob'']
      (User_objects demo_state) =
      Inr \<lparr>td_username = ''bob'', td_confirmation_code = ''code-bob''\<rparr>
   \<and> filter (\<lambda>u. username u = ''bob'') (User_objects demo_state) = [bob]
   \<and> check_token demo_generator 9 bob ''code-bob''
   \<and> finalize (fst (TokenViewSet_post demo_token_is_valid demo_generator demo_access_token 9
        demo_state [''username'' \<mapsto> PyStr ''bob'', ''confirmation_code'' \<mapsto> PyStr ''code-bob''])) =
       \<lparr>data = TokenData ''jwt-bob'', status = 200\<rparr>
   \<and> demo_token_is_valid [''username'' \<mapsto> PyStr ''bob'', ''confirmation_code'' \<mapsto> PyStr ''guess'']
      (User_objects demo_state) =
      Inr \<lparr>td_username = ''bob'', td_confirmation_code = ''guess''\<rparr>
   \<and> \<not> check_token demo_generator 9 bob ''guess''
   \<and> finalize (fst (TokenViewSet_post demo_token_is_valid demo_generator demo_access_token 9
        demo_state [''username'' \<mapsto> PyStr ''bob'', ''confirmation_code'' \<mapsto> PyStr ''guess''])) =
       \<lparr>data = NoData, status = 400\<rparr>"
proof -
  let ?p = "[''username'' \<mapsto> PyStr ''bob'', ''confirmation_code'' \<mapsto> PyStr ''code-bob'']"
  let ?q = "[''username'' \<mapsto> PyStr ''bob'', ''confirmation_code'' \<mapsto> PyStr ''guess'']"
  let ?d = "\<lparr>td_username = ''bob'', td_confirmation_code = ''code-bob''\<rparr>"
  let ?e = "\<lparr>td_username = ''bob'', td_confirmation_code = ''guess''\<rparr>"
  have vp: "demo_token_is_valid ?p (User_objects demo_state) = Inr ?d"
    by (simp add: demo_defs)
  have vq: "demo_token_is_valid ?q (User_objects demo_state) = Inr ?e"
    by (simp add: demo_defs)
  have fp: "filter (\<lambda>u. username u = td_username ?d) (User_objects demo_state) = [bob]"
    by (simp add: demo_defs)
  have fq: "filter (\<lambda>u. username u = td_username ?e) (User_objects demo_state) = [bob]"
    by (simp add: demo_defs)
  have c: "check_token demo_generator 9 bob ''code-bob''"
    by (simp add: demo_defs)
  have n: "\<not> check_token demo_generator 9 bob ''guess''"
    by (simp add: demo_defs)
  from vp vq fp fq c n
    token_post_existing_user [where tv = demo_token_is_valid and p = "?p" and st = demo_state
      and d = "?d" and usr = bob and gen = demo_generator and now = 9
      and jwt = demo_access_token]
    token_post_existing_user [where tv = demo_token_is_valid and p = "?q" and st = demo_state
      and d = "?e" and usr = bob and gen = demo_generator and now = 9
      and jwt = demo_access_token]
  show ?thesis
    by (simp add: demo_access_token_def bob_def)
qed

text \<open>
  C3 as stated, that after a successful token request a second one with the same
  username and code no longer succeeds, fails: the view writes nothing, so the
  second request is answered as the first.
\<close>

theorem confirmation_code_one_time_counterexample:
  "\<not> (\<forall>tv gen jwt now now' st p.
        issued (fst (TokenViewSet_post tv gen jwt now st p)) \<longrightarrow>
        \<not> issued (fst (TokenViewSet_post tv gen jwt now'
                        (snd (TokenViewSet_post tv gen jwt now st p)) p)))"
proof
  assume a: "\<forall>tv gen jwt now now' st p.
        issued (fst (TokenViewSet_post tv gen jwt now st p)) \<longrightarrow>
        \<not> issued (fst (TokenViewSet_post tv gen jwt now'
                        (snd (TokenViewSet_post tv gen jwt now st p)) p))"
  let ?p = "[''username'' \<mapsto> PyStr ''bob'', ''confirmation_code'' \<mapsto> PyStr ''code-bob'']"
  have r: "TokenViewSet_post demo_token_is_valid demo_generator demo_access_token n
             demo_state ?p = (Inr \<lparr>data = TokenData ''jwt-bob'', status = 200\<rparr>, demo_state)"
    for n
    by (simp add: TokenViewSet_post_def get_object_or_404_def demo_defs Let_def)
  have "issued (fst (TokenViewSet_post demo_token_is_valid demo_generator demo_access_token 9
          demo_state ?p))"
    by (simp add: r issued_def finalize_def)
  with a have "\<not> issued (fst (TokenViewSet_post demo_token_is_valid demo_generator
      demo_access_token 10 (snd (TokenViewSet_post demo_token_is_valid demo_generator
      demo_access_token 9 demo_state ?p)) ?p))"
    by blast
  then show False
    by (simp add: r issued_def finalize_def)
qed

text \<open>
  C3, amended. The token request does not use the code up: it leaves the state as
  it was, and after a successful request a repeat with the same username and code
  succeeds again at every time at which the token generator still accepts the code
  for the user.
\<close>

theorem token_post_keeps_code_valid:
  assumes "issued (fst (TokenViewSet_post tv gen jwt now st p))"
  shows "snd (TokenViewSet_post tv gen jwt now st p) = st
         \<and> (\<exists>d usr. tv p (User_objects st) = Inr d
              \<and> get_object_or_404 (\<lambda>u. username u = td_username d) (User_objects st) = Inr usr
              \<and> check_token gen now usr (td_confirmation_code d)
              \<and> (\<forall>now'. check_token gen now' usr (td_confirmation_code d) \<longrightarrow>
                    TokenViewSet_post tv gen jwt now' (snd (TokenViewSet_post tv gen jwt now st p)) p
                      = (Inr \<lparr>data = TokenData (jwt now' usr), status = 200\<rparr>, st)))"
proof -
  have st: "snd (TokenViewSet_post tv gen jwt now st p) = st"
    by (simp add: TokenViewSet_post_def Let_def split: sum.splits)
  from assms obtain d where d: "tv p (User_objects st) = Inr d"
    by (cases "tv p (User_objects st)")
       (auto simp: TokenViewSet_post_def issued_def finalize_def)
  from assms d obtain usr where
    u: "get_object_or_404 (\<lambda>u. username u = td_username d) (User_objects st) = Inr usr"
    by (cases "get_object_or_404 (\<lambda>u. username u = td_username d) (User_objects st)";
        cases "projl (get_object_or_404 (\<lambda>u. username u = td_username d) (User_objects st))")
       (auto simp: TokenViewSet_post_def issued_def finalize_def Let_def)
  from assms d u have c: "check_token gen now usr (td_confirmation_code d)"
    by (auto simp: TokenViewSet_post_def issued_def finalize_def Let_def split: if_splits)
  have "TokenViewSet_post tv gen jwt now' st p
          = (Inr \<lparr>data = TokenData (jwt now' usr), status = 200\<rparr>, st)"
    if "check_token gen now' usr (td_confirmation_code d)" for now'
    using that d u by (simp add: TokenViewSet_post_def Let_def)
  with st d u c show ?thesis by auto
qed

theorem token_post_keeps_code_valid_witness:
  "issued (fst (TokenViewSet_post demo_token_is_valid demo_generator demo_access_token 9
        demo_state [''username'' \<mapsto> PyStr ''bob'', ''confirmation_code'' \<mapsto> PyStr ''code-bob'']))
   \<and> snd (TokenViewSet_post demo_token_is_valid demo_generator demo_access_token 9
        demo_state [''username'' \<mapsto> PyStr ''bob'', ''confirmation_code'' \<mapsto> PyStr ''code-bob'']) = demo_state"
proof -
  let ?p = "[''username'' \<mapsto> PyStr ''bob'', ''confirmation_code'' \<mapsto> PyStr ''code-bob'']"
  have i: "issued (fst (TokenViewSet_post demo_token_is_valid demo_generator demo_access_token 9
        demo_state ?p))"
    by (simp add: TokenViewSet_post_def get_object_or_404_def demo_defs issued_def finalize_def
        Let_def)
  from i token_post_keeps_code_valid [OF i] show ?thesis by simp
qed

subsection \<open>The profile of the requesting user\<close>

lemma save_row_same:
  "\<forall>x \<in> set (save_row pk obj objects). pk x = pk obj \<longrightarrow> x = obj"
proof (cases "pk obj \<in> set (map pk objects)")
  case True
  then show ?thesis by (auto simp: save_row_def)
next
  case False
  then have "\<forall>x \<in> set objects. pk x \<noteq> pk obj" by (auto simp: image_iff)
  with False show ?thesis by (auto simp: save_row_def)
qed

lemma save_row_other:
  "\<forall>x \<in> set (save_row pk obj objects). pk x \<noteq> pk obj \<longrightarrow> x \<in> set objects"
  by (auto simp: save_row_def)

lemma save_row_mem: "obj \<in> set (save_row pk obj objects)"
  by (auto simp: save_row_def)

text \<open>
  C7. A PATCH to \<open>/me\<close> whose payload passes validation leaves the role of the
  requesting user as it was, also when the payload carries a role: the saved user is
  the requesting user updated with the validated data without its role entry, and
  the rows of other users stay as they were.
\<close>

theorem me_patch_keeps_role:
  assumes "req_method request = ''PATCH''"
      and "req_user request = Some inst"
      and "user_is_valid inst (req_data request) st = Inr validated_data"
  shows "\<exists>saved.
           UserViewSet_me user_is_valid st request =
             (Inr \<lparr>data = Object saved, status = 200\<rparr>,
              st\<lparr>User_objects := save_row user_id saved (User_objects st)\<rparr>)
           \<and> role saved = role inst
           \<and> saved = ModelSerializer_update_user inst (validated_data(''role'' := None))
           \<and> user_id saved = user_id inst
           \<and> saved \<in> set (save_row user_id saved (User_objects st))
           \<and> (\<forall>u \<in> set (save_row user_id saved (User_objects st)).
                 (user_id u = user_id inst \<longrightarrow> role u = role inst)
                 \<and> (user_id u \<noteq> user_id inst \<longrightarrow> u \<in> set (User_objects st)))"
proof -
  define saved where "saved = ModelSerializer_update_user inst
     (validated_data ++ [''role'' \<mapsto> PyStr (role inst), ''partial'' \<mapsto> PyBool True])"
  have me: "UserViewSet_me user_is_valid st request =
             (Inr \<lparr>data = Object saved, status = 200\<rparr>,
              st\<lparr>User_objects := save_row user_id saved (User_objects st)\<rparr>)"
    using assms
    by (simp add: UserViewSet_me_def IsAuthenticated_def saved_def Let_def)
  have r: "role saved = role inst"
    by (simp add: saved_def ModelSerializer_update_user_def)
  have e: "saved = ModelSerializer_update_user inst (validated_data(''role'' := None))"
    by (simp add: saved_def ModelSerializer_update_user_def map_add_def)
  have i: "user_id saved = user_id inst"
    by (simp add: saved_def ModelSerializer_update_user_def)
  have "\<forall>u \<in> set (save_row user_id saved (User_objects st)).
                 (user_id u = user_id inst \<longrightarrow> role u = role inst)
                 \<and> (user_id u \<noteq> user_id inst \<longrightarrow> u \<in> set (User_objects st))"
    using save_row_same [of user_id saved "User_objects st"]
      save_row_other [of user_id saved "User_objects st"] r i
    by auto
  with me r e i save_row_mem [of saved user_id "User_objects st"] show ?thesis by blast
qed

theorem me_patch_keeps_role_witness:
  "req_method patch_me = ''PATCH'' \<and> req_user patch_me = Some bob
   \<and> demo_user_is_valid bob (req_data patch_me) demo_state = Inr (req_data patch_me)
   \<and> UserViewSet_me demo_user_is_valid demo_state patch_me =
       (Inr \<lparr>data = Object (bob\<lparr>email := ''rob@example.com''\<rparr>), status = 200\<rparr>,
        demo_state\<lparr>User_objects := [bob\<lparr>email := ''rob@example.com''\<rparr>]\<rparr>)
   \<and> role (bob\<lparr>email := ''rob@example.com''\<rparr>) = ''user''"
proof -
  have m: "req_method patch_me = ''PATCH''" by (simp add: patch_me_def)
  have u: "req_user patch_me = Some bob" by (simp add: patch_me_def)
  have v: "demo_user_is_valid bob (req_data patch_me) demo_state = Inr (req_data patch_me)"
    by (simp add: patch_me_def demo_user_is_valid_def)
  have s: "ModelSerializer_update_user bob ((req_data patch_me)(''role'' := None)) =
             bob\<lparr>email := ''rob@example.com''\<rparr>"
    by (simp add: ModelSerializer_update_user_def patch_me_def bob_def)
  from me_patch_keeps_role [where request = patch_me and inst = bob
      and user_is_valid = demo_user_is_valid and st = demo_state
      and validated_data = "req_data patch_me"] m u v s
  show ?thesis
    by (auto simp: save_row_def demo_state_def bob_def)
qed

subsection \<open>Reviews and comments under their parent\<close>

lemma get_object_or_404_none:
  "\<forall>x \<in> set objects. \<not> lookup x \<Longrightarrow> get_object_or_404 lookup objects = Inl Http404"
proof -
  assume "\<forall>x \<in> set objects. \<not> lookup x"
  then have "filter lookup objects = []" by (simp add: filter_empty_conv)
  then show ?thesis by (simp add: get_object_or_404_def)
qed

lemma dispatch_parent_missing:
  assumes "check_permissions (permission_classes view) request = Inr ()"
      and "route request = Some a"
      and "a = A_create \<longrightarrow> (\<exists>vd. is_valid view None request st = Inr vd)"
      and "get_queryset view request st = Inl Http404"
      and "\<And>vd. perform_create view request vd st = Inl Http404"
  shows "ModelViewSet_dispatch view st request = (Inl Http404, st)"
  using assms
  by (cases a)
     (auto simp: ModelViewSet_dispatch_def ModelViewSet_list_def ModelViewSet_create_def
        ModelViewSet_retrieve_def ModelViewSet_update_def ModelViewSet_destroy_def
        get_object_def)

lemma Review_parent_missing:
  assumes "\<forall>t \<in> set (Title_objects st). Some (title_id t) \<noteq> url_kwargs request ''title_id''"
  shows "ReviewViewSet_get_queryset request st = Inl Http404"
    and "ReviewViewSet_perform_create request vd st = Inl Http404"
  using get_object_or_404_none [of "Title_objects st"
      "\<lambda>t. Some (title_id t) = url_kwargs request ''title_id''"] assms
  by (simp_all add: ReviewViewSet_get_queryset_def ReviewViewSet_perform_create_def Let_def)

lemma Comment_parent_missing:
  assumes "\<forall>r \<in> set (Review_objects st). Some (review_id r) \<noteq> url_kwargs request ''review_id''"
  shows "CommentViewSet_get_queryset request st = Inl Http404"
    and "CommentViewSet_perform_create request vd st = Inl Http404"
  using get_object_or_404_none [of "Review_objects st"
      "\<lambda>r. Some (review_id r) = url_kwargs request ''review_id''"] assms
  by (simp_all add: CommentViewSet_get_queryset_def CommentViewSet_perform_create_def
      CommentViewSet_get_review_def Let_def)

text \<open>
  C4, amended. A request to a review endpoint that the permission classes admit,
  that is routed to one of the six actions and, for a create, whose payload passes
  validation, is answered 404 when the \<open>title_id\<close> of the URL matches no title,
  and nothing is stored; likewise a request to a comment endpoint when the
  \<open>review_id\<close> of the URL matches no review. The parent is looked up from the
  keyword arguments of the URL in \<open>get_queryset\<close> and in \<open>perform_create\<close>.
\<close>

theorem missing_parent_not_found:
  "(check_permissions (permission_classes (ReviewViewSet rser rperm)) request = Inr ()
      \<and> route request = Some a
      \<and> (a = A_create \<longrightarrow> (\<exists>vd. rser None request st = Inr vd))
      \<and> (\<forall>t \<in> set (Title_objects st). Some (title_id t) \<noteq> url_kwargs request ''title_id'')
    \<longrightarrow> ModelViewSet_dispatch (ReviewViewSet rser rperm) st request = (Inl Http404, st)
        \<and> status (finalize
             (fst (ModelViewSet_dispatch (ReviewViewSet rser rperm) st request))) = 404)
   \<and> (check_permissions (permission_classes (CommentViewSet cser cperm)) request = Inr ()
      \<and> route request = Some a
      \<and> (a = A_create \<longrightarrow> (\<exists>vd. cser None request st = Inr vd))
      \<and> (\<forall>r \<in> set (Review_objects st). Some (review_id r) \<noteq> url_kwargs request ''review_id'')
    \<longrightarrow> ModelViewSet_dispatch (CommentViewSet cser cperm) st request = (Inl Http404, st)
        \<and> status (finalize
             (fst (ModelViewSet_dispatch (CommentViewSet cser cperm) st request))) = 404)"
proof (intro conjI impI)
  assume a: "check_permissions (permission_classes (ReviewViewSet rser rperm)) request = Inr ()
      \<and> route request = Some a
      \<and> (a = A_create \<longrightarrow> (\<exists>vd. rser None request st = Inr vd))
      \<and> (\<forall>t \<in> set (Title_objects st). Some (title_id t) \<noteq> url_kwargs request ''title_id'')"
  have "ModelViewSet_dispatch (ReviewViewSet rser rperm) st request = (Inl Http404, st)"
  proof (rule dispatch_parent_missing [where a = a])
    show "check_permissions (permission_classes (ReviewViewSet rser rperm)) request = Inr ()"
      using a by simp
    show "route request = Some a" using a by simp
    show "a = A_create \<longrightarrow> (\<exists>vd. is_valid (ReviewViewSet rser rperm) None request st = Inr vd)"
      using a by (simp add: ReviewViewSet_def)
    show "get_queryset (ReviewViewSet rser rperm) request st = Inl Http404"
      using a Review_parent_missing(1) by (simp add: ReviewViewSet_def)
    show "perform_create (ReviewViewSet rser rperm) request vd st = Inl Http404" for vd
      using a Review_parent_missing(2) by (simp add: ReviewViewSet_def)
  qed
  then show "ModelViewSet_dispatch (ReviewViewSet rser rperm) st request = (Inl Http404, st)"
    and "status (finalize
             (fst (ModelViewSet_dispatch (ReviewViewSet rser rperm) st request))) = 404"
    by (simp_all add: finalize_def)
next
  assume a: "check_permissions (permission_classes (CommentViewSet cser cperm)) request = Inr ()
      \<and> route request = Some a
      \<and> (a = A_create \<longrightarrow> (\<exists>vd. cser None request st = Inr vd))
      \<and> (\<forall>r \<in> set (Review_objects st). Some (review_id r) \<noteq> url_kwargs request ''review_id'')"
  have "ModelViewSet_dispatch (CommentViewSet cser cperm) st request = (Inl Http404, st)"
  proof (rule dispatch_parent_missing [where a = a])
    show "check_permissions (permission_classes (CommentViewSet cser cperm)) request = Inr ()"
      using a by simp
    show "route request = Some a" using a by simp
    show "a = A_create \<longrightarrow> (\<exists>vd. is_valid (CommentViewSet cser cperm) None request st = Inr vd)"
      using a by (simp add: CommentViewSet_def)
    show "get_queryset (CommentViewSet cser cperm) request st = Inl Http404"
      using a Comment_parent_missing(1) by (simp add: CommentViewSet_def)
    show "perform_create (CommentViewSet cser cperm) request vd st = Inl Http404" for vd
      using a Comment_parent_missing(2) by (simp add: CommentViewSet_def)
  qed
  then show "ModelViewSet_dispatch (CommentViewSet cser cperm) st request = (Inl Http404, st)"
    and "status (finalize
             (fst (ModelViewSet_dispatch (CommentViewSet cser cperm) st request))) = 404"
    by (simp_all add: finalize_def)
qed


theorem missing_parent_not_found_witness:
  "check_permissions (permission_classes
      (ReviewViewSet demo_review_is_valid (demo_author_or_read_only review_author)))
      bob_post_missing = Inr ()
   \<and> route bob_post_missing = Some A_create
   \<and> filter (\<lambda>t. Some (title_id t) = url_kwargs bob_post_missing ''title_id'')
        (Title_objects demo_state) = []
   \<and> ModelViewSet_dispatch
        (ReviewViewSet demo_review_is_valid (demo_author_or_read_only review_author))
        demo_state bob_post_missing = (Inl Http404, demo_state)
   \<and> filter (\<lambda>r. Some (review_id r) = url_kwargs bob_post_missing ''review_id'')
        (Review_objects demo_state) = []
   \<and> ModelViewSet_dispatch
        (CommentViewSet demo_comment_is_valid (demo_author_or_read_only comment_author))
        demo_state bob_post_missing = (Inl Http404, demo_state)"
proof -
  let ?rv = "ReviewViewSet demo_review_is_valid (demo_author_or_read_only review_author)"
  let ?cv = "CommentViewSet demo_comment_is_valid (demo_author_or_read_only comment_author)"
  have p: "check_permissions (permission_classes ?rv) bob_post_missing = Inr ()"
    by (simp add: ReviewViewSet_def IsAuthenticatedOrReadOnly_def
        demo_author_or_read_only_def bob_post_missing_def)
  have q: "check_permissions (permission_classes ?cv) bob_post_missing = Inr ()"
    by (simp add: CommentViewSet_def IsAuthenticatedOrReadOnly_def
        demo_author_or_read_only_def bob_post_missing_def)
  have r: "route bob_post_missing = Some A_create"
    by (simp add: route_def bob_post_missing_def)
  have v: "\<exists>vd. demo_review_is_valid None bob_post_missing demo_state = Inr vd"
    by (simp add: demo_review_is_valid_def bob_post_missing_def)
  have w: "\<exists>vd. demo_comment_is_valid None bob_post_missing demo_state = Inr vd"
    by (simp add: demo_comment_is_valid_def bob_post_missing_def)
  have t: "filter (\<lambda>t. Some (title_id t) = url_kwargs bob_post_missing ''title_id'')
        (Title_objects demo_state) = []"
    by (simp add: bob_post_missing_def demo_state_def solaris_def)
  have u: "filter (\<lambda>r. Some (review_id r) = url_kwargs bob_post_missing ''review_id'')
        (Review_objects demo_state) = []"
    by (simp add: bob_post_missing_def demo_state_def)
  from t have t': "\<forall>t \<in> set (Title_objects demo_state).
      Some (title_id t) \<noteq> url_kwargs bob_post_missing ''title_id''"
    by (simp add: filter_empty_conv)
  from u have u': "\<forall>r \<in> set (Review_objects demo_state).
      Some (review_id r) \<noteq> url_kwargs bob_post_missing ''review_id''"
    by (simp add: filter_empty_conv)
  from p q r v w t u t' u'
    missing_parent_not_found [where rser = demo_review_is_valid
      and rperm = "demo_author_or_read_only review_author" and request = bob_post_missing
      and a = A_create and st = demo_state and cser = demo_comment_is_valid
      and cperm = "demo_author_or_read_only comment_author"]
  show ?thesis by blast
qed

text \<open>
  C4 as stated, that every request to a review or comment endpoint whose parent does
  not exist is answered 404, fails: the permissions are checked first, and a POST
  without credentials is answered 401 whatever the serializer and the second
  permission class are.
\<close>

theorem missing_parent_not_found_counterexample:
  "filter (\<lambda>t. Some (title_id t) = url_kwargs anon_post ''title_id'')
        (Title_objects demo_state) = []
   \<and> (\<forall>rser rperm.
        status (finalize (fst (ModelViewSet_dispatch (ReviewViewSet rser rperm)
          demo_state anon_post))) = 401)
   \<and> filter (\<lambda>r. Some (review_id r) = url_kwargs anon_post ''review_id'')
        (Review_objects demo_state) = []
   \<and> (\<forall>cser cperm.
        status (finalize (fst (ModelViewSet_dispatch (CommentViewSet cser cperm)
          demo_state anon_post))) = 401)"
  by (simp add: ModelViewSet_dispatch_def ReviewViewSet_def CommentViewSet_def
      IsAuthenticatedOrReadOnly_def SAFE_METHODS_def permission_denied_def finalize_def
      anon_post_def demo_state_def solaris_def)

lemma fold_max_ge: "a \<le> fold max xs a \<and> (\<forall>x \<in> set xs. x \<le> fold max xs (a::nat))"
proof (induction xs arbitrary: a)
  case Nil
  show ?case by simp
next
  case (Cons y ys)
  from Cons [of "max y a"] show ?case by auto
qed

lemma next_pk_fresh: "pk_seq < next_pk pk_seq pks \<and> next_pk pk_seq pks \<notin> set pks"
proof -
  from fold_max_ge [of pk_seq pks] have "\<forall>x \<in> set pks. x < next_pk pk_seq pks"
    by (auto simp: next_pk_def)
  moreover from fold_max_ge [of pk_seq pks] have "pk_seq < next_pk pk_seq pks"
    by (simp add: next_pk_def)
  ultimately show ?thesis by blast
qed

lemma dispatch_create_Inr:
  assumes "route request = Some A_create"
      and "ModelViewSet_dispatch view st request = (Inr resp, st')"
  shows "\<exists>vd obj. perform_create view request vd st = Inr (obj, st')
           \<and> resp = \<lparr>data = Object obj, status = 201\<rparr>"
  using assms
  by (auto simp: ModelViewSet_dispatch_def ModelViewSet_create_def
      split: sum.splits prod.splits)

lemma dispatch_create_snd:
  assumes "route request = Some A_create"
  shows "snd (ModelViewSet_dispatch view st request) = st
         \<or> (\<exists>vd obj. perform_create view request vd st =
               Inr (obj, snd (ModelViewSet_dispatch view st request)))"
  using assms
  by (auto simp: ModelViewSet_dispatch_def ModelViewSet_create_def
      split: sum.splits prod.splits)

lemma Review_objects_create_Inr:
  assumes "Review_objects_create vd st = Inr (obj, st')"
  shows "\<exists>t u. vd ''title'' = Some (TitleObj t) \<and> vd ''author'' = Some (UserObj u)
           \<and> review_title obj = title_id t \<and> review_author obj = user_id u
           \<and> st' = st\<lparr>Review_objects := Review_objects st @ [obj],
                      Review_pk_seq := review_id obj\<rparr>"
  using assms
  by (auto simp: Review_objects_create_def Let_def split: option.splits pyval.splits)

lemma Comment_objects_create_Inr:
  assumes "Comment_objects_create vd st = Inr (obj, st')"
  shows "\<exists>r u. vd ''review'' = Some (ReviewObj r) \<and> vd ''author'' = Some (UserObj u)
           \<and> comment_review obj = review_id r \<and> comment_author obj = user_id u
           \<and> st' = st\<lparr>Comment_objects := Comment_objects st @ [obj],
                      Comment_pk_seq := comment_id obj\<rparr>"
  using assms
  by (auto simp: Comment_objects_create_def Let_def split: option.splits pyval.splits)

lemma request_user_UserObj: "request_user request = UserObj u \<Longrightarrow> req_user request = Some u"
  by (auto simp: request_user_def split: option.splits)

lemma Review_perform_create_Inr:
  assumes "ReviewViewSet_perform_create request vd st = Inr (obj, st')"
  shows "\<exists>t u. t \<in> set (Title_objects st)
           \<and> Some (title_id t) = url_kwargs request ''title_id''
           \<and> req_user request = Some u
           \<and> review_title obj = title_id t \<and> review_author obj = user_id u
           \<and> st' = st\<lparr>Review_objects := Review_objects st @ [obj],
                      Review_pk_seq := review_id obj\<rparr>"
proof -
  from assms obtain t where
    t: "get_object_or_404 (\<lambda>t. Some (title_id t) = url_kwargs request ''title_id'')
          (Title_objects st) = Inr t"
    and c: "Review_objects_create
          (vd ++ [''author'' \<mapsto> request_user request, ''title'' \<mapsto> TitleObj t]) st
          = Inr (obj, st')"
    by (auto simp: ReviewViewSet_perform_create_def Let_def split: sum.splits)
  from Review_objects_create_Inr [OF c] obtain u where
    "request_user request = UserObj u" "review_title obj = title_id t"
    "review_author obj = user_id u"
    "st' = st\<lparr>Review_objects := Review_objects st @ [obj],
              Review_pk_seq := review_id obj\<rparr>"
    by auto
  with get_object_or_404_Inr [OF t] request_user_UserObj show ?thesis by blast
qed

lemma Comment_perform_create_Inr:
  assumes "CommentViewSet_perform_create request vd st = Inr (obj, st')"
  shows "\<exists>r u. r \<in> set (Review_objects st)
           \<and> Some (review_id r) = url_kwargs request ''review_id''
           \<and> req_user request = Some u
           \<and> comment_review obj = review_id r \<and> comment_author obj = user_id u
           \<and> st' = st\<lparr>Comment_objects := Comment_objects st @ [obj],
                      Comment_pk_seq := comment_id obj\<rparr>"
proof -
  from assms obtain r where
    r: "get_object_or_404 (\<lambda>r. Some (review_id r) = url_kwargs request ''review_id'')
          (Review_objects st) = Inr r"
    and c: "Comment_objects_create
          (vd ++ [''author'' \<mapsto> request_user request, ''review'' \<mapsto> ReviewObj r]) st
          = Inr (obj, st')"
    by (auto simp: CommentViewSet_perform_create_def CommentViewSet_get_review_def Let_def
        split: sum.splits)
  from Comment_objects_create_Inr [OF c] obtain u where
    "request_user request = UserObj u" "comment_review obj = review_id r"
    "comment_author obj = user_id u"
    "st' = st\<lparr>Comment_objects := Comment_objects st @ [obj],
              Comment_pk_seq := comment_id obj\<rparr>"
    by auto
  with get_object_or_404_Inr [OF r] request_user_UserObj show ?thesis by blast
qed


lemma refs_ok_add_review:
  assumes "refs_ok st" and "t \<in> set (Title_objects st)" and "review_title obj = title_id t"
      and "u \<in> set (User_objects st)" and "review_author obj = user_id u"
  shows "refs_ok (st\<lparr>Review_objects := Review_objects st @ [obj],
                     Review_pk_seq := review_id obj\<rparr>)"
  using assms by (auto simp: refs_ok_def)

lemma refs_ok_add_comment:
  assumes "refs_ok st" and "r \<in> set (Review_objects st)" and "comment_review obj = review_id r"
      and "u \<in> set (User_objects st)" and "comment_author obj = user_id u"
  shows "refs_ok (st\<lparr>Comment_objects := Comment_objects st @ [obj],
                     Comment_pk_seq := comment_id obj\<rparr>)"
  using assms by (auto simp: refs_ok_def)

text \<open>
  C5. A review that the create operation stores refers to the title that the URL
  names, which is a stored title, and to the requesting user; a comment that the
  create operation stores refers to the review that the URL names, a stored
  review, and to the requesting user. When the requesting user is a stored user,
  referential integrity holds after every create operation, successful or not.
\<close>

theorem create_references_parent_and_author:
  assumes create: "route request = Some A_create"
      and inv: "refs_ok st"
      and stored: "\<forall>u. req_user request = Some u \<longrightarrow> u \<in> set (User_objects st)"
  shows "(\<forall>resp st'.
            ModelViewSet_dispatch (ReviewViewSet rser rperm) st request = (Inr resp, st') \<longrightarrow>
            (\<exists>obj t u. resp = \<lparr>data = Object obj, status = 201\<rparr>
               \<and> st' = st\<lparr>Review_objects := Review_objects st @ [obj],
                          Review_pk_seq := review_id obj\<rparr>
               \<and> t \<in> set (Title_objects st)
               \<and> Some (title_id t) = url_kwargs request ''title_id''
               \<and> review_title obj = title_id t
               \<and> req_user request = Some u \<and> review_author obj = user_id u))
         \<and> refs_ok (snd (ModelViewSet_dispatch (ReviewViewSet rser rperm) st request))
         \<and> (\<forall>resp st'.
            ModelViewSet_dispatch (CommentViewSet cser cperm) st request = (Inr resp, st') \<longrightarrow>
            (\<exists>obj r u. resp = \<lparr>data = Object obj, status = 201\<rparr>
               \<and> st' = st\<lparr>Comment_objects := Comment_objects st @ [obj],
                          Comment_pk_seq := comment_id obj\<rparr>
               \<and> r \<in> set (Review_objects st)
               \<and> Some (review_id r) = url_kwargs request ''review_id''
               \<and> comment_review obj = review_id r
               \<and> req_user request = Some u \<and> comment_author obj = user_id u))
         \<and> refs_ok (snd (ModelViewSet_dispatch (CommentViewSet cser cperm) st request))"
proof (intro conjI allI impI)
  fix resp st'
  assume "ModelViewSet_dispatch (ReviewViewSet rser rperm) st request = (Inr resp, st')"
  from dispatch_create_Inr [OF create this] obtain vd obj where
    "ReviewViewSet_perform_create request vd st = Inr (obj, st')"
    "resp = \<lparr>data = Object obj, status = 201\<rparr>"
    by (auto simp: ReviewViewSet_def)
  with Review_perform_create_Inr [of request vd st obj st']
  show "\<exists>obj t u. resp = \<lparr>data = Object obj, status = 201\<rparr>
               \<and> st' = st\<lparr>Review_objects := Review_objects st @ [obj],
                          Review_pk_seq := review_id obj\<rparr>
               \<and> t \<in> set (Title_objects st)
               \<and> Some (title_id t) = url_kwargs request ''title_id''
               \<and> review_title obj = title_id t
               \<and> req_user request = Some u \<and> review_author obj = user_id u"
    by blast
next
  let ?st' = "snd (ModelViewSet_dispatch (ReviewViewSet rser rperm) st request)"
  from dispatch_create_snd [OF create, of "ReviewViewSet rser rperm" st]
  consider "?st' = st"
    | vd obj where "ReviewViewSet_perform_create request vd st = Inr (obj, ?st')"
    by (auto simp: ReviewViewSet_def)
  then show "refs_ok ?st'"
  proof cases
    case 1
    with inv show ?thesis by simp
  next
    case 2
    from Review_perform_create_Inr [OF 2] obtain t u where
      "t \<in> set (Title_objects st)" "req_user request = Some u"
      "review_title obj = title_id t" "review_author obj = user_id u"
      "?st' = st\<lparr>Review_objects := Review_objects st @ [obj],
                 Review_pk_seq := review_id obj\<rparr>"
      by blast
    with inv stored refs_ok_add_review [of st t obj u] show ?thesis by simp
  qed
next
  fix resp st'
  assume "ModelViewSet_dispatch (CommentViewSet cser cperm) st request = (Inr resp, st')"
  from dispatch_create_Inr [OF create this] obtain vd obj where
    "CommentViewSet_perform_create request vd st = Inr (obj, st')"
    "resp = \<lparr>data = Object obj, status = 201\<rparr>"
    by (auto simp: CommentViewSet_def)
  with Comment_perform_create_Inr [of request vd st obj st']
  show "\<exists>obj r u. resp = \<lparr>data = Object obj, status = 201\<rparr>
               \<and> st' = st\<lparr>Comment_objects := Comment_objects st @ [obj],
                          Comment_pk_seq := comment_id obj\<rparr>
               \<and> r \<in> set (Review_objects st)
               \<and> Some (review_id r) = url_kwargs request ''review_id''
               \<and> comment_review obj = review_id r
               \<and> req_user request = Some u \<and> comment_author obj = user_id u"
    by blast
next
  let ?st' = "snd (ModelViewSet_dispatch (CommentViewSet cser cperm) st request)"
  from dispatch_create_snd [OF create, of "CommentViewSet cser cperm" st]
  consider "?st' = st"
    | vd obj where "CommentViewSet_perform_create request vd st = Inr (obj, ?st')"
    by (auto simp: CommentViewSet_def)
  then show "refs_ok ?st'"
  proof cases
    case 1
    with inv show ?thesis by simp
  next
    case 2
    from Comment_perform_create_Inr [OF 2] obtain r u where
      "r \<in> set (Review_objects st)" "req_user request = Some u"
      "comment_review obj = review_id r" "comment_author obj = user_id u"
      "?st' = st\<lparr>Comment_objects := Comment_objects st @ [obj],
                 Comment_pk_seq := comment_id obj\<rparr>"
      by blast
    with inv stored refs_ok_add_comment [of st r obj u] show ?thesis by simp
  qed
qed

theorem create_references_parent_and_author_witness:
  "route bob_post = Some A_create
   \<and> refs_ok demo_state
   \<and> req_user bob_post = Some bob \<and> bob \<in> set (User_objects demo_state)
   \<and> ModelViewSet_dispatch
        (ReviewViewSet demo_review_is_valid (demo_author_or_read_only review_author))
        demo_state bob_post =
       (Inr \<lparr>data = Object \<lparr>review_id = 3, review_title = 2, review_author = 1,
                              review_text = ''fine'', score = 9\<rparr>, status = 201\<rparr>,
        demo_state\<lparr>Review_objects := Review_objects demo_state @
          [\<lparr>review_id = 3, review_title = 2, review_author = 1, review_text = ''fine'',
            score = 9\<rparr>],
          Review_pk_seq := 3\<rparr>)
   \<and> refs_ok (snd (ModelViewSet_dispatch
        (ReviewViewSet demo_review_is_valid (demo_author_or_read_only review_author))
        demo_state bob_post))
   \<and> refs_ok (snd (ModelViewSet_dispatch
        (CommentViewSet demo_comment_is_valid (demo_author_or_read_only comment_author))
        demo_state bob_post))"
proof -
  have c: "route bob_post = Some A_create"
    by (simp add: route_def bob_post_def)
  have i: "refs_ok demo_state"
    by (simp add: refs_ok_def demo_state_def bob_def solaris_def)
  have u: "req_user bob_post = Some bob" by (simp add: bob_post_def)
  have m: "bob \<in> set (User_objects demo_state)" by (simp add: demo_state_def)
  from u m have s: "\<forall>u. req_user bob_post = Some u \<longrightarrow> u \<in> set (User_objects demo_state)"
    by simp
  have d: "ModelViewSet_dispatch
        (ReviewViewSet demo_review_is_valid (demo_author_or_read_only review_author))
        demo_state bob_post =
       (Inr \<lparr>data = Object \<lparr>review_id = 3, review_title = 2, review_author = 1,
                              review_text = ''fine'', score = 9\<rparr>, status = 201\<rparr>,
        demo_state\<lparr>Review_objects := Review_objects demo_state @
          [\<lparr>review_id = 3, review_title = 2, review_author = 1, review_text = ''fine'',
            score = 9\<rparr>],
          Review_pk_seq := 3\<rparr>)"
    by (simp add: ModelViewSet_dispatch_def ModelViewSet_create_def ReviewViewSet_def
        IsAuthenticatedOrReadOnly_def ReviewViewSet_perform_create_def
        Review_objects_create_def get_object_or_404_def request_user_def route_def
        bob_post_def demo_defs Let_def)
  from c i u m d
    create_references_parent_and_author [OF c i s, of demo_review_is_valid
      "demo_author_or_read_only review_author" demo_comment_is_valid
      "demo_author_or_read_only comment_author"]
  show ?thesis by simp
qed

subsection \<open>Serializer selection\<close>

lemma str_in_GET:
  "str_in m ''GET'' \<longleftrightarrow> m \<in> {''GET'', ''GE'', ''ET'', ''G'', ''E'', ''T'', ''''}"
proof -
  have "length m \<le> 3 \<or> 3 < length m" by arith
  then show ?thesis
  proof
    assume "3 < length m"
    then show ?thesis by (auto simp: startswith_def)
  next
    assume le: "length m \<le> 3"
    show ?thesis
    proof (cases m)
      case Nil
      then show ?thesis by (simp add: startswith_def)
    next
      case (Cons a m1)
      note c1 = Cons
      show ?thesis
      proof (cases m1)
        case Nil
        with c1 show ?thesis by (auto simp: startswith_def)
      next
        case (Cons b m2)
        note c2 = Cons
        show ?thesis
        proof (cases m2)
          case Nil
          with c1 c2 show ?thesis by (auto simp: startswith_def)
        next
          case (Cons c m3)
          with c1 c2 le have "m3 = []" by simp
          with c1 c2 Cons show ?thesis by (auto simp: startswith_def)
        qed
      qed
    qed
  qed
qed

text \<open>
  C10. The test in \<open>get_serializer_class\<close> is the substring test on \<open>'GET'\<close>, and
  yet on every HTTP method name it decides as inequality with \<open>'GET'\<close> would: GET
  selects \<open>TitlesSerializer\<close>, each other method name selects
  \<open>TitleCreateSerializer\<close>.
\<close>

theorem get_serializer_class_http_methods:
  assumes "m \<in> set http_method_names"
  shows "(\<not> str_in m ''GET'') = (m \<noteq> ''GET'')
         \<and> get_serializer_class m =
           (if m = ''GET'' then TitlesSerializer else TitleCreateSerializer)"
proof -
  from assms have "str_in m ''GET'' \<longleftrightarrow> m = ''GET''"
    unfolding str_in_GET by (auto simp: http_method_names_def)
  then show ?thesis by (simp add: get_serializer_class_def)
qed

theorem get_serializer_class_http_methods_witness:
  "''PATCH'' \<in> set http_method_names
   \<and> get_serializer_class ''PATCH'' = TitleCreateSerializer
   \<and> ''GET'' \<in> set http_method_names
   \<and> get_serializer_class ''GET'' = TitlesSerializer"
  using get_serializer_class_http_methods [of "''PATCH''"]
    get_serializer_class_http_methods [of "''GET''"]
  by (simp add: http_method_names_def)

end
